theory Spec2Isabelle
  imports Complex_Main
begin

section \<open>Blue-green deployment routing: the data model\<close>

text \<open>
  The theory embeds the deployment service of the repository (the functions
  \<^verbatim>\<open>formatDeploymentUrl\<close>, \<^verbatim>\<open>getNextResponse\<close>, \<^verbatim>\<open>selectBlueGreenDeployment\<close>,
  \<^verbatim>\<open>fetchRCDeployment\<close> and \<^verbatim>\<open>handleDeployment\<close>).  Strings are byte strings.
  Console output is not part of the model: no decision of the code reads it.
\<close>

subsection \<open>Errors\<close>

text \<open>
  The three ways a call of the service can throw: the \<^verbatim>\<open>URL\<close> constructor on a
  string it cannot parse, \<^verbatim>\<open>headers.set\<close> on a value that is no header value, and a
  \<^verbatim>\<open>fetch\<close> whose promise rejects.  (All are a \<^verbatim>\<open>TypeError\<close> in the runtime.)
\<close>

datatype error = InvalidURL | InvalidHeaderValue | FetchFailed

subsection \<open>URLs\<close>

text \<open>
  A parsed URL with the components the \<^verbatim>\<open>URL\<close> class exposes; \<open>protocol\<close> ends
  with a colon, \<open>search\<close> and \<open>hash\<close> are empty or start with their delimiter, \<open>port\<close>
  is empty for the default port.
\<close>

record url =
  protocol :: string
  hostname :: string
  port :: string
  pathname :: string
  search :: string
  hash :: string

definition href :: "url \<Rightarrow> string" where
  "href u = protocol u @ ''//'' @ hostname u
     @ (if port u = [] then [] else '':'' @ port u)
     @ pathname u @ search u @ hash u"

subsection \<open>Characters and string tests\<close>

definition lower_char :: "char \<Rightarrow> char" where
  "lower_char c =
     (case map_of (zip ''ABCDEFGHIJKLMNOPQRSTUVWXYZ'' ''abcdefghijklmnopqrstuvwxyz'') c of
        None \<Rightarrow> c
      | Some d \<Rightarrow> d)"

text \<open>\<^verbatim>\<open>String.prototype.includes\<close>: does \<open>t\<close> occur in \<open>s\<close> as a contiguous run?\<close>

fun str_includes :: "string \<Rightarrow> string \<Rightarrow> bool" where
  "str_includes [] t = (t = [])"
| "str_includes (c # s) t = (take (length t) (c # s) = t \<or> str_includes s t)"

text \<open>The regular expression \<^verbatim>\<open>/^http/\<close>: the string starts with the four letters.\<close>

definition test_http :: "string \<Rightarrow> bool" where
  "test_http s = (take 4 s = ''http'')"

text \<open>
  The regular expression \<^verbatim>\<open>/vercel/i\<close>: the word occurs somewhere, in any mix of
  upper and lower case.  (Without the \<^verbatim>\<open>u\<close> flag only ASCII letters fold onto
  ASCII letters.)
\<close>

definition test_vercel_i :: "string \<Rightarrow> bool" where
  "test_vercel_i s = str_includes (map lower_char s) ''vercel''"

subsection \<open>Header lists\<close>

text \<open>
  A \<^verbatim>\<open>Headers\<close> object is its list of (name, value) pairs in order; names are kept
  in lower case, as the class compares them, and the code names every header in lower
  case.  A name may occur several times (\<^verbatim>\<open>set-cookie\<close>).
\<close>

type_synonym headers = "(string \<times> string) list"

definition values_of :: "headers \<Rightarrow> string \<Rightarrow> string list" where
  "values_of h n = map snd (filter (\<lambda>kv. fst kv = n) h)"

definition headers_has :: "headers \<Rightarrow> string \<Rightarrow> bool" where
  "headers_has h n = (values_of h n \<noteq> [])"

text \<open>\<^verbatim>\<open>get\<close> joins the values of a repeated name with a comma and a space; \<open>None\<close> is \<^verbatim>\<open>null\<close>.\<close>

definition headers_get :: "headers \<Rightarrow> string \<Rightarrow> string option" where
  "headers_get h n =
     (case values_of h n of
        [] \<Rightarrow> None
      | v # vs \<Rightarrow> Some (foldl (\<lambda>acc w. acc @ '', '' @ w) v vs))"

text \<open>
  Setting a name in the list: the value is written at the first occurrence of the name
  and the other occurrences are removed, or the pair is appended when the name is new.
\<close>

fun headers_set :: "headers \<Rightarrow> string \<Rightarrow> string \<Rightarrow> headers" where
  "headers_set [] n v = [(n, v)]"
| "headers_set (kv # h) n v =
     (if fst kv = n then (n, v) # filter (\<lambda>kv'. fst kv' \<noteq> n) h
      else kv # headers_set h n v)"

text \<open>
  The method \<^verbatim>\<open>set(name, value)\<close>: the value is first normalised (tabs, newlines and
  spaces at both ends are dropped); a normalised value that holds a NUL, a line feed or
  a carriage return is refused; otherwise the name is set in the list.
\<close>

definition http_whitespace :: "char \<Rightarrow> bool" where
  "http_whitespace c = (c = CHR 0x09 \<or> c = CHR 0x0A \<or> c = CHR 0x0D \<or> c = CHR 0x20)"

definition normalize_value :: "string \<Rightarrow> string" where
  "normalize_value v = rev (dropWhile http_whitespace (rev (dropWhile http_whitespace v)))"

definition valid_value :: "string \<Rightarrow> bool" where
  "valid_value v = list_all (\<lambda>c. c \<noteq> CHR 0x00 \<and> c \<noteq> CHR 0x0A \<and> c \<noteq> CHR 0x0D) v"

definition set_header :: "headers \<Rightarrow> string \<Rightarrow> string \<Rightarrow> error + headers" where
  "set_header h n v =
     (let value = normalize_value v in
      if valid_value value then Inr (headers_set h n value) else Inl InvalidHeaderValue)"

definition headers_append :: "headers \<Rightarrow> string \<Rightarrow> string \<Rightarrow> headers" where
  "headers_append h n v = h @ [(n, v)]"

definition getSetCookie :: "headers \<Rightarrow> string list" where
  "getSetCookie h = values_of h ''set-cookie''"

text \<open>JavaScript truthiness of a \<^verbatim>\<open>string | null\<close>: \<^verbatim>\<open>null\<close> and the empty string are falsy.\<close>

definition truthy :: "string option \<Rightarrow> bool" where
  "truthy v = (case v of None \<Rightarrow> False | Some s \<Rightarrow> s \<noteq> [])"

subsection \<open>Requests, responses and the platform\<close>

text \<open>
  The inbound request as the framework hands it over: its URL (always an absolute URL
  in serialised form, so parsing it again cannot fail), its method, its headers and
  the cookies the framework parsed from them.
\<close>

record request =
  req_url :: url
  req_method :: string
  req_headers :: headers
  req_cookies :: "string \<rightharpoonup> string"

record response =
  res_status :: nat
  res_headers :: headers
  res_body :: string

datatype redirect_mode = Follow | Fail | Manual

text \<open>What one call of \<^verbatim>\<open>fetch\<close> sends.\<close>

record upstream_request =
  up_url :: url
  up_method :: string
  up_headers :: headers
  up_redirect :: redirect_mode

text \<open>The arguments of \<^verbatim>\<open>response.cookies.set(name, value, { maxAge })\<close>.\<close>

record cookie =
  ck_name :: string
  ck_value :: string
  ck_maxAge :: "nat option"

text \<open>
  What the code calls and the repository does not define:
  \<^item> \<open>URL_new s\<close> is \<^verbatim>\<open>new URL(s)\<close>, \<open>None\<close> when the constructor throws;
  \<^item> \<open>host_parse v\<close> is what the URL parser makes of \<open>v\<close> when the hostname setter of an
    \<^verbatim>\<open>http\<close> or \<^verbatim>\<open>https\<close> URL hands it over: the host to store, or \<open>None\<close> when the
    parser rejects \<open>v\<close> (an empty value, a value with a port, a forbidden character);
  \<^item> \<open>fetch rq\<close> is the upstream's answer, \<open>None\<close> when the promise rejects;
  \<^item> \<open>cookies_set r c\<close> is the framework's \<^verbatim>\<open>r.cookies.set\<close>;
  \<^item> \<open>Math_random\<close> is the value \<^verbatim>\<open>Math.random()\<close> returns in this invocation (the
    code draws at most once), a number in \<open>[0, 1)\<close>.  Numbers are modelled by the reals
    they denote, with exact arithmetic.
\<close>

record platform =
  URL_new :: "string \<Rightarrow> url option"
  host_parse :: "string \<Rightarrow> string option"
  fetch :: "upstream_request \<Rightarrow> response option"
  cookies_set :: "response \<Rightarrow> cookie \<Rightarrow> response"
  Math_random :: real

text \<open>
  What a call leaves behind: the value returned (or the error thrown), the upstream
  requests issued in order, and the caller's \<^verbatim>\<open>headers\<close> object, which the proxy
  fetcher mutates.
\<close>

record outcome =
  returned :: "error + response"
  fetched :: "upstream_request list"
  fwd_headers :: headers

section \<open>The deployment service\<close>

definition MAX_AGE :: nat where
  "MAX_AGE = 60 * 60 * 24"

text \<open>
  \<^verbatim>\<open>formatDeploymentUrl\<close>.  (\<^verbatim>\<open>deploymentUrl || ''\<close> is the string itself: the only
  falsy string is the empty one.)
\<close>

definition formatDeploymentUrl :: "platform \<Rightarrow> string \<Rightarrow> error + string" where
  "formatDeploymentUrl P deploymentUrl =
     (if test_http deploymentUrl then
        (case URL_new P deploymentUrl of
           None \<Rightarrow> Inl InvalidURL
         | Some u \<Rightarrow> Inr (hostname u))
      else Inr deploymentUrl)"

datatype env = Rc | Production

record BlueGreenConfig =
  trafficRcPercent :: real

definition selectBlueGreenDeployment :: "platform \<Rightarrow> BlueGreenConfig \<Rightarrow> env" where
  "selectBlueGreenDeployment P config =
     (if Math_random P * 100 < trafficRcPercent config then Rc else Production)"

text \<open>
  The assignment \<^verbatim>\<open>url.hostname = v\<close>: the setter never throws.  When the parser
  rejects the value, the URL stays as it is; otherwise the URL gets the host the parser
  returns, which is the value itself only when that is a host in serialised form.
\<close>

definition set_hostname :: "platform \<Rightarrow> url \<Rightarrow> string \<Rightarrow> url" where
  "set_hostname P u v = (case host_parse P v of None \<Rightarrow> u | Some h \<Rightarrow> u\<lparr>hostname := h\<rparr>)"

text \<open>
  \<^verbatim>\<open>getNextResponse\<close>.  The call of \<^verbatim>\<open>fetch\<close> names no method, so the request goes
  out with the default one, whatever the method of \<open>req\<close>.  A response with a status
  of 400 or more is logged and returned like any other.
\<close>

definition getNextResponse ::
  "platform \<Rightarrow> request \<Rightarrow> string \<Rightarrow> headers \<Rightarrow> string \<Rightarrow> outcome" where
  "getNextResponse P req domain headers uuid =
     (case formatDeploymentUrl P domain of
        Inl e \<Rightarrow> \<lparr>returned = Inl e, fetched = [], fwd_headers = headers\<rparr>
      | Inr formattedDomain \<Rightarrow>
          (let url = set_hostname P (req_url req) formattedDomain in
           (case set_header headers ''x-deployment-override'' formattedDomain of
              Inl e \<Rightarrow> \<lparr>returned = Inl e, fetched = [], fwd_headers = headers\<rparr>
            | Inr headers' \<Rightarrow>
                (let rq = \<lparr>up_url = url, up_method = ''GET'', up_headers = headers',
                           up_redirect = Manual\<rparr>
                 in (case fetch P rq of
                       None \<Rightarrow>
                         \<lparr>returned = Inl FetchFailed, fetched = [rq], fwd_headers = headers'\<rparr>
                     | Some deployment \<Rightarrow>
                         \<lparr>returned = Inr deployment, fetched = [rq],
                          fwd_headers = headers'\<rparr>)))))"

text \<open>
  \<^verbatim>\<open>fetchRCDeployment\<close>: the loop appends to the upstream response every
  \<^verbatim>\<open>Set-Cookie\<close> value of the caller's response and then the sticky cookie.  The
  header list of the upstream response is taken to be writable, as the code expects.
\<close>

definition fetchRCDeployment ::
  "platform \<Rightarrow> request \<Rightarrow> headers \<Rightarrow> string \<Rightarrow> string \<Rightarrow> response \<Rightarrow> outcome" where
  "fetchRCDeployment P req headers uuid rcDomain base =
     (let r = getNextResponse P req rcDomain headers uuid in
      (case returned r of
         Inl e \<Rightarrow> r
       | Inr response \<Rightarrow>
           r\<lparr>returned := Inr
               (foldl (\<lambda>res v. res\<lparr>res_headers := headers_append (res_headers res) ''set-cookie'' v\<rparr>)
                  response
                  (getSetCookie (res_headers base) @ [''release_candidate=true'']))\<rparr>))"

text \<open>The object literal the handler binds where a configuration was once fetched.\<close>

definition productionRcConfig :: "BlueGreenConfig option" where
  "productionRcConfig = Some \<lparr>trafficRcPercent = 90\<rparr>"

text \<open>\<^verbatim>\<open>return response\<close> with nothing fetched and nothing written.\<close>

definition unchanged :: "response \<Rightarrow> headers \<Rightarrow> outcome" where
  "unchanged response headers = \<lparr>returned = Inr response, fetched = [], fwd_headers = headers\<rparr>"

text \<open>
  \<^verbatim>\<open>handleDeployment\<close>.  Its three local constants of step 1 come first.
  \<open>isDocumentRequest\<close> is a \<^verbatim>\<open>boolean | undefined\<close> (\<open>None\<close> when there is no
  \<^verbatim>\<open>accept\<close> header to ask); only \<open>Some True\<close> is truthy.  The user agent is read
  from the \<^verbatim>\<open>headers\<close> argument, the document test from the request's own headers.
\<close>

definition isDocumentRequest :: "request \<Rightarrow> bool option" where
  "isDocumentRequest request =
     (if headers_has (req_headers request) ''sec-fetch-dest''
      then Some (headers_get (req_headers request) ''sec-fetch-dest'' = Some ''document'')
      else map_option (\<lambda>a. str_includes a ''text/html'')
             (headers_get (req_headers request) ''accept''))"

definition isVercelUserAgent :: "headers \<Rightarrow> bool" where
  "isVercelUserAgent headers =
     (let userAgent = (case headers_get headers ''user-agent'' of None \<Rightarrow> [] | Some v \<Rightarrow> v)
      in test_vercel_i userAgent)"

definition shouldSkipBlueGreenDeployment :: "request \<Rightarrow> headers \<Rightarrow> bool" where
  "shouldSkipBlueGreenDeployment request headers =
     (False \<or> req_method request \<noteq> ''GET'' \<or> isDocumentRequest request \<noteq> Some True
        \<or> isVercelUserAgent headers \<or> False)"

definition handleDeployment ::
  "platform \<Rightarrow> request \<Rightarrow> response \<Rightarrow> headers \<Rightarrow> string \<Rightarrow> string \<Rightarrow> string \<Rightarrow> outcome" where
  "handleDeployment P request response headers uuid config rcDomain =
     (let url = req_url request in
      if shouldSkipBlueGreenDeployment request headers then unchanged response headers
      else if req_cookies request ''release_candidate'' = Some ''false''
        then unchanged response headers
      else if truthy (headers_get (req_headers request) ''x-deployment-override'')
        then unchanged response headers
      else if pathname url = ''/release-candidate''
        then fetchRCDeployment P request headers uuid rcDomain response
      else if req_cookies request ''release_candidate'' = Some ''true''
        then fetchRCDeployment P request headers uuid rcDomain response
      else (case productionRcConfig of
              None \<Rightarrow> unchanged response headers
            | Some cfg \<Rightarrow>
                (let env = selectBlueGreenDeployment P cfg in
                 if env = Production then
                   \<lparr>returned = Inr (cookies_set P response
                       \<lparr>ck_name = ''release_candidate'', ck_value = ''false'',
                        ck_maxAge = Some MAX_AGE\<rparr>),
                    fetched = [], fwd_headers = headers\<rparr>
                 else fetchRCDeployment P request headers uuid rcDomain response)))"

section \<open>A platform to run examples on\<close>

text \<open>
  The theorems below hold for every platform.  To evaluate the code on concrete
  requests, \<open>demo\<close> is one platform: a model of the \<^verbatim>\<open>URL\<close> constructor and of the
  hostname setter's parser on a fragment of their inputs, an upstream that always
  answers with the same page, and a cookie writer that appends one header.
\<close>

definition is_lower :: "char \<Rightarrow> bool" where
  "is_lower c = (c \<in> set ''abcdefghijklmnopqrstuvwxyz'')"

definition is_alpha :: "char \<Rightarrow> bool" where
  "is_alpha c = is_lower (lower_char c)"

definition is_digit :: "char \<Rightarrow> bool" where
  "is_digit c = (c \<in> set ''0123456789'')"

definition scheme_char :: "char \<Rightarrow> bool" where
  "scheme_char c = (is_alpha c \<or> is_digit c \<or> c = CHR ''+'' \<or> c = CHR ''-'' \<or> c = CHR ''.'')"

definition c0_or_space :: "char \<Rightarrow> bool" where
  "c0_or_space c = ((of_char c :: nat) \<le> 32)"

definition tab_or_newline :: "char \<Rightarrow> bool" where
  "tab_or_newline c = (let n = (of_char c :: nat) in n = 9 \<or> n = 10 \<or> n = 13)"

text \<open>The parser first strips controls and spaces at both ends and drops tabs and newlines.\<close>

definition url_trim :: "string \<Rightarrow> string" where
  "url_trim s =
     filter (\<lambda>c. \<not> tab_or_newline c) (rev (dropWhile c0_or_space (rev (dropWhile c0_or_space s))))"

text \<open>
  The scheme: a letter, then letters, digits, plus, minus and dot, up to a colon.  A
  string that does not start so has no scheme, and without a base URL the parser fails.
\<close>

definition split_scheme :: "string \<Rightarrow> (string \<times> string) option" where
  "split_scheme s =
     (case s of
        [] \<Rightarrow> None
      | c # _ \<Rightarrow>
          if \<not> is_alpha c then None
          else (case dropWhile scheme_char s of
                  [] \<Rightarrow> None
                | d # rest \<Rightarrow>
                    if d = CHR '':'' then Some (map lower_char (takeWhile scheme_char s), rest)
                    else None))"

definition slash :: "char \<Rightarrow> bool" where
  "slash c = (c = CHR ''/'' \<or> c = CHR 0x5C)"

definition authority_end :: "char \<Rightarrow> bool" where
  "authority_end c = (slash c \<or> c = CHR ''?'' \<or> c = CHR ''#'')"

text \<open>
  Hosts the model accepts: ASCII domains of letters, digits, minus and dot whose last
  label starts with a letter (so it is no IPv4 number) and that hold no Punycode label.
\<close>

definition plain_host :: "string \<Rightarrow> bool" where
  "plain_host h =
     (list_all (\<lambda>c. is_lower c \<or> is_digit c \<or> c = CHR ''-'' \<or> c = CHR ''.'') h
      \<and> (case rev (takeWhile (\<lambda>c. c \<noteq> CHR ''.'') (rev h)) of
            [] \<Rightarrow> False
          | c # _ \<Rightarrow> is_lower c)
      \<and> \<not> str_includes h ''xn--'')"

text \<open>
  The constructor on \<^verbatim>\<open>http\<close> and \<^verbatim>\<open>https\<close> URLs with such a host and no
  credentials or port.  Path, query and fragment are kept as written, without the
  constructor's normalisation: the service reads only the hostname of a URL it
  constructs from a string.  On a string without a scheme the model fails as the
  constructor does.  Every other string (another scheme, a port, credentials, an IP
  address, a host that needs decoding) is outside the fragment and rejected here, where
  the runtime may accept it.
\<close>

definition URL_parse :: "string \<Rightarrow> url option" where
  "URL_parse s =
     (case split_scheme (url_trim s) of
        None \<Rightarrow> None
      | Some (scheme, rest) \<Rightarrow>
          if scheme \<noteq> ''http'' \<and> scheme \<noteq> ''https'' then None
          else
            (let after = dropWhile slash rest;
                 host = map lower_char (takeWhile (\<lambda>c. \<not> authority_end c) after);
                 tail = dropWhile (\<lambda>c. \<not> authority_end c) after;
                 path = takeWhile (\<lambda>c. c \<noteq> CHR ''?'' \<and> c \<noteq> CHR ''#'') tail;
                 after_path = dropWhile (\<lambda>c. c \<noteq> CHR ''?'' \<and> c \<noteq> CHR ''#'') tail;
                 query = takeWhile (\<lambda>c. c \<noteq> CHR ''#'') after_path;
                 fragment = dropWhile (\<lambda>c. c \<noteq> CHR ''#'') after_path
             in if \<not> plain_host host then None
                else Some \<lparr>protocol = scheme @ '':'', hostname = host, port = [],
                       pathname = (if path = [] then ''/'' else path),
                       search = (if query = ''?'' then [] else query),
                       hash = (if fragment = ''#'' then [] else fragment)\<rparr>))"

text \<open>
  The parser as the hostname setter runs it: tabs and newlines are dropped, the host
  ends at the first slash, backslash, question mark or hash, and a colon before that
  end (a port) makes the parser fail, as an empty host does.  The model accepts the
  same hosts as \<open>URL_parse\<close> and rejects every other, where the runtime may accept it.
\<close>

definition host_parse_demo :: "string \<Rightarrow> string option" where
  "host_parse_demo v =
     (let buffer = takeWhile (\<lambda>c. \<not> authority_end c) (filter (\<lambda>c. \<not> tab_or_newline c) v);
          host = map lower_char buffer
      in if CHR '':'' \<in> set buffer then None
         else if plain_host host then Some host
         else None)"

fun decimal :: "nat \<Rightarrow> string" where
  "decimal n =
     (if n < 10 then [''0123456789'' ! n] else decimal (n div 10) @ [''0123456789'' ! (n mod 10)])"

text \<open>
  A cookie writer: it drops the \<^verbatim>\<open>Set-Cookie\<close> headers of the same cookie name and
  appends the new cookie.  (The framework also writes an expiry date read from the
  clock.)
\<close>

definition cookies_set_demo :: "response \<Rightarrow> cookie \<Rightarrow> response" where
  "cookies_set_demo r c =
     r\<lparr>res_headers :=
         filter (\<lambda>kv. \<not> (fst kv = ''set-cookie''
                     \<and> takeWhile (\<lambda>x. x \<noteq> CHR ''='') (snd kv) = ck_name c))
           (res_headers r)
         @ [(''set-cookie'',
             ck_name c @ ''='' @ ck_value c @ ''; Path=/''
             @ (case ck_maxAge c of None \<Rightarrow> [] | Some n \<Rightarrow> ''; Max-Age='' @ decimal n))]\<rparr>"

definition rc_page :: response where
  "rc_page = \<lparr>res_status = 200,
     res_headers = [(''content-type'', ''text/html''), (''set-cookie'', ''b=2'')],
     res_body = ''<html>rc</html>''\<rparr>"

definition demo :: "real \<Rightarrow> platform" where
  "demo r = \<lparr>URL_new = URL_parse, host_parse = host_parse_demo, fetch = (\<lambda>rq. Some rc_page),
     cookies_set = cookies_set_demo, Math_random = r\<rparr>"

text \<open>
  An inbound navigation to a path of the site, and the response the middleware built.
  Cookies are given in the parsed view through which the code reads them.
\<close>

definition navigation :: "string \<Rightarrow> string \<Rightarrow> request" where
  "navigation path query =
     \<lparr>req_url = \<lparr>protocol = ''https:'', hostname = ''www.example.com'', port = [],
                 pathname = path, search = query, hash = []\<rparr>,
      req_method = ''GET'',
      req_headers = [(''accept'', ''text/html,application/xhtml+xml''),
                     (''user-agent'', ''Mozilla/5.0'')],
      req_cookies = Map.empty\<rparr>"

definition base_page :: response where
  "base_page = \<lparr>res_status = 200, res_headers = [(''set-cookie'', ''a=1'')], res_body = []\<rparr>"

text \<open>The same request with one more cookie, or with one header set.\<close>

definition with_cookie :: "request \<Rightarrow> string \<Rightarrow> string \<Rightarrow> request" where
  "with_cookie r n v = r\<lparr>req_cookies := (req_cookies r)(n \<mapsto> v)\<rparr>"

definition with_header :: "request \<Rightarrow> string \<Rightarrow> string \<Rightarrow> request" where
  "with_header r n v = r\<lparr>req_headers := headers_set (req_headers r) n v\<rparr>"

section \<open>Strings and header lists\<close>

lemma take_length_iff: "take (length t) s = t \<longleftrightarrow> (\<exists>rest. s = t @ rest)"
proof
  assume "take (length t) s = t"
  then have "s = t @ drop (length t) s" by (metis append_take_drop_id)
  then show "\<exists>rest. s = t @ rest" ..
next
  assume "\<exists>rest. s = t @ rest"
  then obtain rest where "s = t @ rest" ..
  then show "take (length t) s = t" by simp
qed

lemma str_includes_iff: "str_includes s t \<longleftrightarrow> (\<exists>pre suf. s = pre @ t @ suf)"
proof (induction s)
  case Nil
  then show ?case by auto
next
  case (Cons c s)
  have "take (length t) (c # s) = t \<longleftrightarrow> (\<exists>suf. c # s = t @ suf)"
    by (rule take_length_iff)
  moreover have "(\<exists>pre suf. c # s = pre @ t @ suf) \<longleftrightarrow>
      (\<exists>suf. c # s = t @ suf) \<or> (\<exists>pre suf. s = pre @ t @ suf)"
  proof
    assume "\<exists>pre suf. c # s = pre @ t @ suf"
    then obtain pre suf where e: "c # s = pre @ t @ suf" by blast
    show "(\<exists>suf. c # s = t @ suf) \<or> (\<exists>pre suf. s = pre @ t @ suf)"
    proof (cases pre)
      case Nil
      with e show ?thesis by auto
    next
      case (Cons a pre')
      with e have "s = pre' @ t @ suf" by simp
      then show ?thesis by blast
    qed
  next
    assume "(\<exists>suf. c # s = t @ suf) \<or> (\<exists>pre suf. s = pre @ t @ suf)"
    then show "\<exists>pre suf. c # s = pre @ t @ suf"
    proof
      assume "\<exists>suf. c # s = t @ suf"
      then show ?thesis by (metis append_Nil)
    next
      assume "\<exists>pre suf. s = pre @ t @ suf"
      then obtain pre suf where "s = pre @ t @ suf" by blast
      then have "c # s = (c # pre) @ t @ suf" by simp
      then show ?thesis by blast
    qed
  qed
  ultimately show ?case using Cons.IH by simp
qed

lemma map_infix_iff:
  "(\<exists>p q. map f s = p @ t @ q) \<longleftrightarrow> (\<exists>pre mid suf. s = pre @ mid @ suf \<and> map f mid = t)"
proof
  assume "\<exists>p q. map f s = p @ t @ q"
  then obtain p q where e: "map f s = p @ t @ q" by blast
  define mid where "mid = take (length t) (drop (length p) s)"
  have "map f mid = take (length t) (drop (length p) (map f s))"
    by (simp add: mid_def take_map drop_map)
  also have "\<dots> = t" by (simp add: e)
  finally have "map f mid = t" .
  moreover have "s = take (length p) s @ mid @ drop (length t) (drop (length p) s)"
    unfolding mid_def by (simp only: append_take_drop_id)
  ultimately show "\<exists>pre mid suf. s = pre @ mid @ suf \<and> map f mid = t" by blast
next
  assume "\<exists>pre mid suf. s = pre @ mid @ suf \<and> map f mid = t"
  then obtain pre mid suf where "s = pre @ mid @ suf" "map f mid = t" by blast
  then have "map f s = map f pre @ t @ map f suf" by simp
  then show "\<exists>p q. map f s = p @ t @ q" by blast
qed

lemma test_vercel_i_iff:
  "test_vercel_i s \<longleftrightarrow> (\<exists>pre mid suf. s = pre @ mid @ suf \<and> map lower_char mid = ''vercel'')"
  unfolding test_vercel_i_def str_includes_iff by (rule map_infix_iff)

lemma test_http_iff: "test_http s \<longleftrightarrow> (\<exists>rest. s = ''http'' @ rest)"
proof -
  have L: "length ''http'' = 4" by simp
  show ?thesis unfolding test_http_def using take_length_iff [of "''http''" s] unfolding L .
qed

lemma values_of_append: "values_of (h @ h') n = values_of h n @ values_of h' n"
  by (simp add: values_of_def)

lemma values_of_Nil: "values_of [] m = []"
  by (simp add: values_of_def)

lemma values_of_Cons:
  "values_of (kv # h) m = (if fst kv = m then snd kv # values_of h m else values_of h m)"
  by (simp add: values_of_def)

lemma values_of_filter_other:
  "m \<noteq> n \<Longrightarrow> values_of (filter (\<lambda>kv. fst kv \<noteq> n) h) m = values_of h m"
  by (induction h) (auto simp: values_of_def)

lemma values_of_filter_same: "values_of (filter (\<lambda>kv. fst kv \<noteq> n) h) n = []"
  by (induction h) (auto simp: values_of_def)

lemma values_of_headers_set_same: "values_of (headers_set h n v) n = [v]"
  by (induction h) (auto simp: values_of_Nil values_of_Cons values_of_filter_same)

lemma values_of_headers_set_other:
  "m \<noteq> n \<Longrightarrow> values_of (headers_set h n v) m = values_of h m"
  by (induction h) (auto simp: values_of_Nil values_of_Cons values_of_filter_other)

lemma headers_get_set_same: "headers_get (headers_set h n v) n = Some v"
  by (simp add: headers_get_def values_of_headers_set_same)


lemma foldl_headers_append:
  "foldl (\<lambda>res v. res\<lparr>res_headers := headers_append (res_headers res) n v\<rparr>) r vs
     = r\<lparr>res_headers := res_headers r @ map (Pair n) vs\<rparr>"
  by (induction vs arbitrary: r) (simp_all add: headers_append_def)

lemma getSetCookie_appended:
  "getSetCookie (h @ map (Pair ''set-cookie'') vs) = getSetCookie h @ vs"
proof -
  have "values_of (map (Pair ''set-cookie'') vs) ''set-cookie'' = vs"
    by (induction vs) (simp_all add: values_of_def)
  then show ?thesis by (simp add: getSetCookie_def values_of_append)
qed

section \<open>The service, branch by branch\<close>

lemma set_hostname_others:
  "protocol (set_hostname P u v) = protocol u" "port (set_hostname P u v) = port u"
  "pathname (set_hostname P u v) = pathname u" "search (set_hostname P u v) = search u"
  "hash (set_hostname P u v) = hash u"
  by (simp_all add: set_hostname_def split: option.splits)

lemma set_hostname_serialised: "host_parse P h = Some h \<Longrightarrow> set_hostname P u h = u\<lparr>hostname := h\<rparr>"
  by (simp add: set_hostname_def)

lemma set_hostname_rejected: "host_parse P v = None \<Longrightarrow> set_hostname P u v = u"
  by (simp add: set_hostname_def)

lemma set_header_valid:
  "valid_value (normalize_value v) \<Longrightarrow> set_header h n v = Inr (headers_set h n (normalize_value v))"
  by (simp add: set_header_def)

lemma getNextResponse_ok:
  assumes "formatDeploymentUrl P domain = Inr h" and "valid_value (normalize_value h)"
  shows "fetched (getNextResponse P req domain headers uuid)
           = [\<lparr>up_url = set_hostname P (req_url req) h, up_method = ''GET'',
               up_headers = headers_set headers ''x-deployment-override'' (normalize_value h),
               up_redirect = Manual\<rparr>]"
    and "fwd_headers (getNextResponse P req domain headers uuid)
           = headers_set headers ''x-deployment-override'' (normalize_value h)"
    and "returned (getNextResponse P req domain headers uuid)
           = (case fetch P \<lparr>up_url = set_hostname P (req_url req) h, up_method = ''GET'',
                 up_headers = headers_set headers ''x-deployment-override'' (normalize_value h),
                 up_redirect = Manual\<rparr> of None \<Rightarrow> Inl FetchFailed | Some d \<Rightarrow> Inr d)"
  using assms by (simp_all add: getNextResponse_def set_header_valid Let_def split: option.splits)


lemma getNextResponse_refused:
  assumes "formatDeploymentUrl P domain = Inr h" and "\<not> valid_value (normalize_value h)"
  shows "getNextResponse P req domain headers uuid
           = \<lparr>returned = Inl InvalidHeaderValue, fetched = [], fwd_headers = headers\<rparr>"
  using assms by (simp add: getNextResponse_def set_header_def Let_def)


lemma fetchRCDeployment_fetched:
  "fetched (fetchRCDeployment P req headers uuid rcDomain base)
     = fetched (getNextResponse P req rcDomain headers uuid)"
  by (simp add: fetchRCDeployment_def Let_def split: sum.splits)

lemma fetchRCDeployment_fwd_headers:
  "fwd_headers (fetchRCDeployment P req headers uuid rcDomain base)
     = fwd_headers (getNextResponse P req rcDomain headers uuid)"
  by (simp add: fetchRCDeployment_def Let_def split: sum.splits)

lemma fetchRCDeployment_returned:
  "returned (fetchRCDeployment P req headers uuid rcDomain base)
     = (case returned (getNextResponse P req rcDomain headers uuid) of
          Inl e \<Rightarrow> Inl e
        | Inr d \<Rightarrow> Inr (d\<lparr>res_headers := res_headers d
             @ map (Pair ''set-cookie'') (getSetCookie (res_headers base) @ [''release_candidate=true''])\<rparr>))"
  by (simp add: fetchRCDeployment_def Let_def foldl_headers_append split: sum.splits)

lemma handleDeployment_skip:
  "shouldSkipBlueGreenDeployment request headers \<Longrightarrow>
     handleDeployment P request response headers uuid config rcDomain = unchanged response headers"
  by (simp add: handleDeployment_def)

lemma handleDeployment_sticky_false:
  "req_cookies request ''release_candidate'' = Some ''false'' \<Longrightarrow>
     handleDeployment P request response headers uuid config rcDomain = unchanged response headers"
  by (simp add: handleDeployment_def)

lemma handleDeployment_override:
  "truthy (headers_get (req_headers request) ''x-deployment-override'') \<Longrightarrow>
     handleDeployment P request response headers uuid config rcDomain = unchanged response headers"
  by (simp add: handleDeployment_def)

lemma handleDeployment_continue:
  assumes "\<not> shouldSkipBlueGreenDeployment request headers"
    and "req_cookies request ''release_candidate'' \<noteq> Some ''false''"
    and "\<not> truthy (headers_get (req_headers request) ''x-deployment-override'')"
  shows "handleDeployment P request response headers uuid config rcDomain =
     (if pathname (req_url request) = ''/release-candidate''
         \<or> req_cookies request ''release_candidate'' = Some ''true''
         \<or> Math_random P * 100 < 90
      then fetchRCDeployment P request headers uuid rcDomain response
      else \<lparr>returned = Inr (cookies_set P response
               \<lparr>ck_name = ''release_candidate'', ck_value = ''false'', ck_maxAge = Some 86400\<rparr>),
            fetched = [], fwd_headers = headers\<rparr>)"
  using assms
  by (simp add: handleDeployment_def productionRcConfig_def selectBlueGreenDeployment_def MAX_AGE_def)

lemma isDocumentRequest_iff:
  "isDocumentRequest request = Some True \<longleftrightarrow>
     (if headers_has (req_headers request) ''sec-fetch-dest''
      then headers_get (req_headers request) ''sec-fetch-dest'' = Some ''document''
      else (\<exists>a pre suf. headers_get (req_headers request) ''accept'' = Some a
              \<and> a = pre @ ''text/html'' @ suf))"
  by (cases "headers_get (req_headers request) ''accept''")
     (simp_all add: isDocumentRequest_def str_includes_iff)

lemma isVercelUserAgent_iff:
  "isVercelUserAgent headers \<longleftrightarrow>
     (\<exists>ua pre mid suf. headers_get headers ''user-agent'' = Some ua
        \<and> ua = pre @ mid @ suf \<and> map lower_char mid = ''vercel'')"
proof (cases "headers_get headers ''user-agent''")
  case None
  have "\<not> test_vercel_i []" by (simp add: test_vercel_i_def)
  with None show ?thesis by (simp add: isVercelUserAgent_def)
next
  case (Some ua)
  then show ?thesis by (simp add: isVercelUserAgent_def test_vercel_i_iff)
qed

lemma shouldSkip_with_cookie:
  "shouldSkipBlueGreenDeployment (with_cookie r n v) h = shouldSkipBlueGreenDeployment r h"
  by (simp add: shouldSkipBlueGreenDeployment_def isDocumentRequest_def with_cookie_def)


lemma navigation_document: "isDocumentRequest (navigation p q) = Some True"
  by (simp add: isDocumentRequest_def navigation_def headers_has_def headers_get_def values_of_def)

lemma browser_agent: "\<not> isVercelUserAgent (req_headers (navigation p q))"
  by (simp add: isVercelUserAgent_def navigation_def headers_get_def values_of_def
      test_vercel_i_def lower_char_def)

lemma navigation_eligible:
  "\<not> shouldSkipBlueGreenDeployment (navigation p q) (req_headers (navigation p q))"
  by (simp add: shouldSkipBlueGreenDeployment_def navigation_document browser_agent)
     (simp add: navigation_def)

lemma navigation_no_override:
  "\<not> truthy (headers_get (req_headers (navigation p q)) ''x-deployment-override'')"
  by (simp add: truthy_def navigation_def headers_get_def values_of_def)

lemma not_skip_GET: "\<not> shouldSkipBlueGreenDeployment request headers \<Longrightarrow> req_method request = ''GET''"
  by (simp add: shouldSkipBlueGreenDeployment_def)

lemma unchanged_fetched: "fetched (unchanged response headers) = []"
  by (simp add: unchanged_def)

lemma handleDeployment_fetched:
  "fetched (handleDeployment P request response headers uuid config rcDomain) =
     (if \<not> shouldSkipBlueGreenDeployment request headers
         \<and> req_cookies request ''release_candidate'' \<noteq> Some ''false''
         \<and> \<not> truthy (headers_get (req_headers request) ''x-deployment-override'')
         \<and> (pathname (req_url request) = ''/release-candidate''
              \<or> req_cookies request ''release_candidate'' = Some ''true''
              \<or> Math_random P * 100 < 90)
      then fetched (getNextResponse P request rcDomain headers uuid)
      else [])"
proof (cases "\<not> shouldSkipBlueGreenDeployment request headers
         \<and> req_cookies request ''release_candidate'' \<noteq> Some ''false''
         \<and> \<not> truthy (headers_get (req_headers request) ''x-deployment-override'')")
  case True
  then show ?thesis
    by (simp add: handleDeployment_continue fetchRCDeployment_fetched)
next
  case False
  then have "handleDeployment P request response headers uuid config rcDomain
      = unchanged response headers"
    using handleDeployment_skip [of request headers] handleDeployment_sticky_false [of request]
      handleDeployment_override [of request]
    by blast
  with False show ?thesis by (auto simp: unchanged_fetched)
qed


section \<open>The example platform at work\<close>

lemma demo_resolves: "formatDeploymentUrl (demo x) ''rc.example.com'' = Inr ''rc.example.com''"
  by (simp add: formatDeploymentUrl_def test_http_def)

lemma demo_host: "host_parse (demo x) ''rc.example.com'' = Some ''rc.example.com''"
  by (simp add: demo_def host_parse_demo_def tab_or_newline_def authority_end_def slash_def
      lower_char_def plain_host_def is_lower_def is_digit_def)

lemma demo_value:
  "normalize_value ''rc.example.com'' = ''rc.example.com''" "valid_value ''rc.example.com''"
  by (simp_all add: normalize_value_def http_whitespace_def valid_value_def)

lemma demo_getNextResponse:
  "getNextResponse (demo x) rq ''rc.example.com'' h u =
     \<lparr>returned = Inr rc_page,
      fetched = [\<lparr>up_url = (req_url rq)\<lparr>hostname := ''rc.example.com''\<rparr>, up_method = ''GET'',
                  up_headers = headers_set h ''x-deployment-override'' ''rc.example.com'',
                  up_redirect = Manual\<rparr>],
      fwd_headers = headers_set h ''x-deployment-override'' ''rc.example.com''\<rparr>"
proof -
  have f: "fetch (demo x) q = Some rc_page" for q by (simp add: demo_def)
  have v: "valid_value (normalize_value ''rc.example.com'')" by (simp add: demo_value)
  show ?thesis
    by (simp add: getNextResponse_def demo_resolves set_header_valid [OF v] demo_value
        set_hostname_serialised [OF demo_host] Let_def f)
qed

lemma demo_fetchRCDeployment:
  "fetchRCDeployment (demo x) rq h u ''rc.example.com'' base_page =
     \<lparr>returned = Inr \<lparr>res_status = 200,
         res_headers = [(''content-type'', ''text/html''), (''set-cookie'', ''b=2''),
                        (''set-cookie'', ''a=1''), (''set-cookie'', ''release_candidate=true'')],
         res_body = ''<html>rc</html>''\<rparr>,
      fetched = [\<lparr>up_url = (req_url rq)\<lparr>hostname := ''rc.example.com''\<rparr>, up_method = ''GET'',
                  up_headers = headers_set h ''x-deployment-override'' ''rc.example.com'',
                  up_redirect = Manual\<rparr>],
      fwd_headers = headers_set h ''x-deployment-override'' ''rc.example.com''\<rparr>"
  by (simp add: fetchRCDeployment_def demo_getNextResponse Let_def rc_page_def base_page_def
      getSetCookie_def values_of_def headers_append_def)

section \<open>The traffic splitter\<close>

text \<open>
  Claim C2.  For every weight \<open>w\<close> in \<open>[0, 100]\<close> and every draw \<open>r\<close> in \<open>[0, 100)\<close>,
  where \<open>r\<close> is the random number times one hundred, the splitter selects the release
  candidate if and only if \<open>r < w\<close>, and production otherwise.  In particular the
  boundary draw \<open>r = w\<close> selects production, weight 0 selects production for every
  draw and weight 100 selects the release candidate for every draw.
\<close>

theorem selectBlueGreenDeployment_threshold:
  assumes "0 \<le> w" and "w \<le> 100" and "r = Math_random P * 100" and "0 \<le> r" and "r < 100"
  shows "(selectBlueGreenDeployment P \<lparr>trafficRcPercent = w\<rparr> = Rc \<longleftrightarrow> r < w)
       \<and> (selectBlueGreenDeployment P \<lparr>trafficRcPercent = w\<rparr> = Production \<longleftrightarrow> \<not> r < w)
       \<and> (r = w \<longrightarrow> selectBlueGreenDeployment P \<lparr>trafficRcPercent = w\<rparr> = Production)
       \<and> (w = 0 \<longrightarrow> selectBlueGreenDeployment P \<lparr>trafficRcPercent = w\<rparr> = Production)
       \<and> (w = 100 \<longrightarrow> selectBlueGreenDeployment P \<lparr>trafficRcPercent = w\<rparr> = Rc)"
  using assms by (auto simp: selectBlueGreenDeployment_def)

text \<open>
  The splitter at weight 90 with draws 50 and 90 (the boundary), at weight 0 with draws
  99.9 and 0, and at weight 100 with draw 99.9.
\<close>

theorem selectBlueGreenDeployment_threshold_witness:
  "selectBlueGreenDeployment (demo (1/2)) \<lparr>trafficRcPercent = 90\<rparr> = Rc
   \<and> selectBlueGreenDeployment (demo (9/10)) \<lparr>trafficRcPercent = 90\<rparr> = Production
   \<and> selectBlueGreenDeployment (demo (999/1000)) \<lparr>trafficRcPercent = 0\<rparr> = Production
   \<and> selectBlueGreenDeployment (demo 0) \<lparr>trafficRcPercent = 0\<rparr> = Production
   \<and> selectBlueGreenDeployment (demo (999/1000)) \<lparr>trafficRcPercent = 100\<rparr> = Rc"
proof -
  have m: "x * 100 = Math_random (demo x) * 100" for x by (simp add: demo_def)
  have "selectBlueGreenDeployment (demo (1/2)) \<lparr>trafficRcPercent = 90\<rparr> = Rc"
    using selectBlueGreenDeployment_threshold [of 90 "1/2 * 100" "demo (1/2)", OF _ _ m] by simp
  moreover have "selectBlueGreenDeployment (demo (9/10)) \<lparr>trafficRcPercent = 90\<rparr> = Production"
    using selectBlueGreenDeployment_threshold [of 90 "9/10 * 100" "demo (9/10)", OF _ _ m] by simp
  moreover have "selectBlueGreenDeployment (demo (999/1000)) \<lparr>trafficRcPercent = 0\<rparr> = Production"
    using selectBlueGreenDeployment_threshold [of 0 "999/1000 * 100" "demo (999/1000)", OF _ _ m] by simp
  moreover have "selectBlueGreenDeployment (demo 0) \<lparr>trafficRcPercent = 0\<rparr> = Production"
    using selectBlueGreenDeployment_threshold [of 0 "0 * 100" "demo 0", OF _ _ m] by simp
  moreover have "selectBlueGreenDeployment (demo (999/1000)) \<lparr>trafficRcPercent = 100\<rparr> = Rc"
    using selectBlueGreenDeployment_threshold [of 100 "999/1000 * 100" "demo (999/1000)", OF _ _ m] by simp
  ultimately show ?thesis by blast
qed

section \<open>The target resolver\<close>

text \<open>
  Claim C7, as the code has it.  An identifier that does not begin with \<^verbatim>\<open>http\<close> is
  returned unchanged.  One that begins with \<^verbatim>\<open>http\<close> goes to the \<^verbatim>\<open>URL\<close>
  constructor: if it parses, the hostname of the parsed URL is returned; if it does not,
  the constructor's error leaves the function, which has no handler for it.
\<close>

theorem formatDeploymentUrl_cases:
  "((\<nexists>rest. d = ''http'' @ rest) \<longrightarrow> formatDeploymentUrl P d = Inr d)
   \<and> ((\<exists>rest. d = ''http'' @ rest) \<longrightarrow>
        (\<forall>u. URL_new P d = Some u \<longrightarrow> formatDeploymentUrl P d = Inr (hostname u))
        \<and> (URL_new P d = None \<longrightarrow> formatDeploymentUrl P d = Inl InvalidURL))"
  unfolding test_http_iff [symmetric] by (simp add: formatDeploymentUrl_def)

text \<open>
  A bare hostname, a full URL of the release candidate, and the string \<^verbatim>\<open>http\<close>, which
  has no scheme to parse.
\<close>

theorem formatDeploymentUrl_cases_witness:
  "formatDeploymentUrl (demo (1/2)) ''rc-00301507.vercel-support.app'' = Inr ''rc-00301507.vercel-support.app''
   \<and> formatDeploymentUrl (demo (1/2)) ''https://rc.example.com/base?x=1'' = Inr ''rc.example.com''
   \<and> formatDeploymentUrl (demo (1/2)) ''http'' = Inl InvalidURL"
proof -
  have 1: "URL_new (demo (1/2)) ''https://rc.example.com/base?x=1'' =
      Some \<lparr>protocol = ''https:'', hostname = ''rc.example.com'', port = [],
            pathname = ''/base'', search = ''?x=1'', hash = []\<rparr>"
    by (simp add: demo_def URL_parse_def split_scheme_def url_trim_def c0_or_space_def tab_or_newline_def
        is_alpha_def is_lower_def lower_char_def scheme_char_def is_digit_def slash_def
        authority_end_def plain_host_def)
  have 2: "URL_new (demo (1/2)) ''http'' = None"
    by (simp add: demo_def URL_parse_def split_scheme_def url_trim_def c0_or_space_def tab_or_newline_def
        is_alpha_def is_lower_def lower_char_def scheme_char_def is_digit_def)
  have 3: "\<nexists>rest. ''rc-00301507.vercel-support.app'' = ''http'' @ rest" by simp
  have 4: "\<exists>rest. ''https://rc.example.com/base?x=1'' = ''http'' @ rest" by simp
  have 5: "\<exists>rest. ''http'' = ''http'' @ rest" by simp
  have a: "formatDeploymentUrl (demo (1/2)) ''rc-00301507.vercel-support.app'' = Inr ''rc-00301507.vercel-support.app''"
    using formatDeploymentUrl_cases [of "''rc-00301507.vercel-support.app''" "demo (1/2)"] by simp
  have b: "formatDeploymentUrl (demo (1/2)) ''https://rc.example.com/base?x=1'' = Inr ''rc.example.com''"
    using formatDeploymentUrl_cases [of "''https://rc.example.com/base?x=1''" "demo (1/2)"] 1 by simp
  have c: "formatDeploymentUrl (demo (1/2)) ''http'' = Inl InvalidURL"
    using formatDeploymentUrl_cases [of "''http''" "demo (1/2)"] 2 by simp
  from a b c show ?thesis by blast
qed

text \<open>
  The claim as written says the resolver never raises and passes an unparseable
  identifier through.  The bare hostname \<^verbatim>\<open>httpbin.org\<close> begins with \<^verbatim>\<open>http\<close>, so it
  is handed to the constructor, which finds no scheme in it and throws.
\<close>

theorem formatDeploymentUrl_counterexample:
  "(\<exists>rest. ''httpbin.org'' = ''http'' @ rest)
   \<and> formatDeploymentUrl (demo (1/2)) ''httpbin.org'' = Inl InvalidURL
   \<and> formatDeploymentUrl (demo (1/2)) ''httpbin.org'' \<noteq> Inr ''httpbin.org''"
proof -
  have "URL_parse ''httpbin.org'' = None"
    by (simp add: URL_parse_def split_scheme_def url_trim_def c0_or_space_def tab_or_newline_def
        is_alpha_def is_lower_def lower_char_def scheme_char_def is_digit_def)
  then have "formatDeploymentUrl (demo (1/2)) ''httpbin.org'' = Inl InvalidURL"
    by (simp add: formatDeploymentUrl_def test_http_def demo_def)
  then show ?thesis by simp
qed

section \<open>The routing pipeline: the paths that pass the response through\<close>

text \<open>
  Claim C9.  The pipeline returns the caller's response as it is, fetches nothing and
  writes no cookie whenever the method is not \<^verbatim>\<open>GET\<close>, or the request is not a
  document request, or the user agent holds the word \<^verbatim>\<open>vercel\<close> in any mix of
  cases.  A request is a document request when its \<^verbatim>\<open>Sec-Fetch-Dest\<close> header is
  \<^verbatim>\<open>document\<close>, if it has that header, and otherwise when its \<^verbatim>\<open>Accept\<close> header
  contains \<^verbatim>\<open>text/html\<close>.  The user agent is the one of the forwarded header set.
\<close>

theorem ineligible_passes_through:
  assumes "req_method request \<noteq> ''GET''
     \<or> \<not> (if headers_has (req_headers request) ''sec-fetch-dest''
            then headers_get (req_headers request) ''sec-fetch-dest'' = Some ''document''
            else (\<exists>a pre suf. headers_get (req_headers request) ''accept'' = Some a
                    \<and> a = pre @ ''text/html'' @ suf))
     \<or> (\<exists>ua pre mid suf. headers_get headers ''user-agent'' = Some ua
            \<and> ua = pre @ mid @ suf \<and> map lower_char mid = ''vercel'')"
  shows "handleDeployment P request response headers uuid config rcDomain
           = \<lparr>returned = Inr response, fetched = [], fwd_headers = headers\<rparr>"
proof -
  from assms have "shouldSkipBlueGreenDeployment request headers"
    unfolding shouldSkipBlueGreenDeployment_def isDocumentRequest_iff isVercelUserAgent_iff
    by blast
  then show ?thesis by (simp add: handleDeployment_skip unchanged_def)
qed

text \<open>
  A \<^verbatim>\<open>POST\<close>, a navigation that announces an image as its destination, and a
  navigation by the platform's own agent.
\<close>

theorem ineligible_passes_through_witness:
  "handleDeployment (demo (1/2)) ((navigation ''/'' [])\<lparr>req_method := ''POST''\<rparr>) base_page
       (req_headers (navigation ''/'' [])) [] [] ''rc.example.com''
     = \<lparr>returned = Inr base_page, fetched = [], fwd_headers = req_headers (navigation ''/'' [])\<rparr>
   \<and> handleDeployment (demo (1/2)) (with_header (navigation ''/'' []) ''sec-fetch-dest'' ''image'')
       base_page (req_headers (with_header (navigation ''/'' []) ''sec-fetch-dest'' ''image''))
       [] [] ''rc.example.com''
     = \<lparr>returned = Inr base_page, fetched = [],
        fwd_headers = req_headers (with_header (navigation ''/'' []) ''sec-fetch-dest'' ''image'')\<rparr>
   \<and> handleDeployment (demo (1/2))
       (with_header (navigation ''/'' []) ''user-agent'' ''Vercel Edge Functions'') base_page
       (req_headers (with_header (navigation ''/'' []) ''user-agent'' ''Vercel Edge Functions''))
       [] [] ''rc.example.com''
     = \<lparr>returned = Inr base_page, fetched = [],
        fwd_headers =
          req_headers (with_header (navigation ''/'' []) ''user-agent'' ''Vercel Edge Functions'')\<rparr>"
proof -
  let ?img = "with_header (navigation ''/'' []) ''sec-fetch-dest'' ''image''"
  let ?bot = "with_header (navigation ''/'' []) ''user-agent'' ''Vercel Edge Functions''"
  have a: "req_method ((navigation ''/'' [])\<lparr>req_method := ''POST''\<rparr>) \<noteq> ''GET''" by simp
  have b: "\<not> (if headers_has (req_headers ?img) ''sec-fetch-dest''
            then headers_get (req_headers ?img) ''sec-fetch-dest'' = Some ''document''
            else (\<exists>a pre suf. headers_get (req_headers ?img) ''accept'' = Some a
                    \<and> a = pre @ ''text/html'' @ suf))"
    by (simp add: with_header_def headers_has_def headers_get_set_same values_of_headers_set_same)
  have "isVercelUserAgent (req_headers ?bot)"
    by (simp add: isVercelUserAgent_def with_header_def headers_get_set_same test_vercel_i_def
        lower_char_def)
  then have c: "\<exists>ua pre mid suf. headers_get (req_headers ?bot) ''user-agent'' = Some ua
        \<and> ua = pre @ mid @ suf \<and> map lower_char mid = ''vercel''"
    by (simp only: isVercelUserAgent_iff)
  show ?thesis
    using ineligible_passes_through [OF disjI1, OF a]
      ineligible_passes_through [OF disjI2, OF disjI1, OF b]
      ineligible_passes_through [OF disjI2, OF disjI2, OF c]
    by blast
qed

text \<open>
  Claim C3.  A request that carries the cookie \<^verbatim>\<open>release_candidate=false\<close> gets the
  caller's response back as it is, with nothing fetched and no cookie written, whatever
  its path: the check comes before the one for the reserved path.
\<close>

theorem sticky_false_passes_through:
  assumes "req_cookies request ''release_candidate'' = Some ''false''"
  shows "handleDeployment P request response headers uuid config rcDomain
           = \<lparr>returned = Inr response, fetched = [], fwd_headers = headers\<rparr>"
  using assms by (simp add: handleDeployment_sticky_false unchanged_def)

text \<open>An eligible navigation to the reserved path with the negative sticky cookie.\<close>

theorem sticky_false_passes_through_witness:
  "\<not> shouldSkipBlueGreenDeployment
        (with_cookie (navigation ''/release-candidate'' []) ''release_candidate'' ''false'')
        (req_headers (navigation ''/release-candidate'' []))
   \<and> pathname (req_url (with_cookie (navigation ''/release-candidate'' []) ''release_candidate'' ''false''))
        = ''/release-candidate''
   \<and> handleDeployment (demo (1/2))
        (with_cookie (navigation ''/release-candidate'' []) ''release_candidate'' ''false'')
        base_page (req_headers (navigation ''/release-candidate'' [])) [] [] ''rc.example.com''
     = \<lparr>returned = Inr base_page, fetched = [],
        fwd_headers = req_headers (navigation ''/release-candidate'' [])\<rparr>"
proof -
  have "req_cookies (with_cookie (navigation ''/release-candidate'' []) ''release_candidate'' ''false'')
      ''release_candidate'' = Some ''false''"
    by (simp add: with_cookie_def)
  from sticky_false_passes_through [OF this]
  show ?thesis
    by (simp add: shouldSkip_with_cookie navigation_eligible) (simp add: with_cookie_def navigation_def)
qed




section \<open>The proxy fetcher\<close>

text \<open>
  Claim C4, as the code has it.  For a target that resolves to \<open>h\<close>, the proxy fetcher
  issues exactly one upstream request when \<open>h\<close> is a header value, and the pipeline
  issues that request on its three proxying branches and none on any other; when \<open>h\<close>
  is no header value, \<^verbatim>\<open>headers.set\<close> throws and nothing is fetched.  The request's
  method is always \<^verbatim>\<open>GET\<close>: the fetcher passes no method on, and the pipeline
  proxies \<^verbatim>\<open>GET\<close> requests only.  Its URL is the inbound URL after the hostname
  setter: the hostname is \<open>h\<close> when \<open>h\<close> is a host in serialised form, the inbound
  hostname when the parser rejects \<open>h\<close>, and scheme, port, path, query and fragment are
  the inbound ones in every case.  Its headers are the forwarded headers with
  \<^verbatim>\<open>x-deployment-override\<close> set to \<open>h\<close>, normalised, and every other header as it
  was.  Redirects are not followed.
\<close>

theorem proxied_request_shape:
  assumes "formatDeploymentUrl P rcDomain = Inr h"
  shows "(valid_value (normalize_value h) \<longrightarrow>
        fetched (getNextResponse P request rcDomain headers uuid)
          = [\<lparr>up_url = set_hostname P (req_url request) h, up_method = ''GET'',
              up_headers = headers_set headers ''x-deployment-override'' (normalize_value h),
              up_redirect = Manual\<rparr>]
        \<and> fetched (handleDeployment P request response headers uuid config rcDomain)
          = (if \<not> shouldSkipBlueGreenDeployment request headers
                \<and> req_cookies request ''release_candidate'' \<noteq> Some ''false''
                \<and> \<not> truthy (headers_get (req_headers request) ''x-deployment-override'')
                \<and> (pathname (req_url request) = ''/release-candidate''
                     \<or> req_cookies request ''release_candidate'' = Some ''true''
                     \<or> Math_random P * 100 < 90)
             then [\<lparr>up_url = set_hostname P (req_url request) h, up_method = ''GET'',
                    up_headers = headers_set headers ''x-deployment-override'' (normalize_value h),
                    up_redirect = Manual\<rparr>]
             else []))
     \<and> (\<not> valid_value (normalize_value h) \<longrightarrow>
        getNextResponse P request rcDomain headers uuid
          = \<lparr>returned = Inl InvalidHeaderValue, fetched = [], fwd_headers = headers\<rparr>)
     \<and> (fetched (handleDeployment P request response headers uuid config rcDomain) \<noteq> []
        \<longrightarrow> req_method request = ''GET'')
     \<and> (host_parse P h = Some h
        \<longrightarrow> set_hostname P (req_url request) h = (req_url request)\<lparr>hostname := h\<rparr>)
     \<and> (host_parse P h = None \<longrightarrow> set_hostname P (req_url request) h = req_url request)
     \<and> protocol (set_hostname P (req_url request) h) = protocol (req_url request)
     \<and> port (set_hostname P (req_url request) h) = port (req_url request)
     \<and> pathname (set_hostname P (req_url request) h) = pathname (req_url request)
     \<and> search (set_hostname P (req_url request) h) = search (req_url request)
     \<and> hash (set_hostname P (req_url request) h) = hash (req_url request)
     \<and> headers_get (headers_set headers ''x-deployment-override'' (normalize_value h))
          ''x-deployment-override'' = Some (normalize_value h)
     \<and> (\<forall>n. n \<noteq> ''x-deployment-override'' \<longrightarrow>
           values_of (headers_set headers ''x-deployment-override'' (normalize_value h)) n
             = values_of headers n)"
proof -
  have a: "valid_value (normalize_value h) \<Longrightarrow>
      fetched (getNextResponse P request rcDomain headers uuid)
          = [\<lparr>up_url = set_hostname P (req_url request) h, up_method = ''GET'',
              up_headers = headers_set headers ''x-deployment-override'' (normalize_value h),
              up_redirect = Manual\<rparr>]"
    by (rule getNextResponse_ok(1) [OF assms])
  have b: "\<not> valid_value (normalize_value h) \<Longrightarrow>
      getNextResponse P request rcDomain headers uuid
          = \<lparr>returned = Inl InvalidHeaderValue, fetched = [], fwd_headers = headers\<rparr>"
    by (rule getNextResponse_refused [OF assms])
  have c: "fetched (handleDeployment P request response headers uuid config rcDomain) \<noteq> []
        \<Longrightarrow> req_method request = ''GET''"
    using handleDeployment_fetched [of P request response headers uuid config rcDomain]
    by (auto split: if_splits dest: not_skip_GET)
  show ?thesis
    using a b c
    by (simp add: handleDeployment_fetched set_hostname_others set_hostname_serialised
        set_hostname_rejected headers_get_set_same values_of_headers_set_other)
qed

text \<open>
  The inbound path \<^verbatim>\<open>/foo?x=1\<close> and the target \<^verbatim>\<open>rc.example.com\<close>: one upstream
  request, to \<^verbatim>\<open>https://rc.example.com/foo?x=1\<close>.
\<close>

theorem proxied_request_shape_witness:
  "map (\<lambda>q. (href (up_url q), up_method q, up_headers q, up_redirect q))
     (fetched (handleDeployment (demo (1/2)) (navigation ''/foo'' ''?x=1'') base_page
        (req_headers (navigation ''/foo'' ''?x=1'')) [] [] ''rc.example.com''))
   = [(''https://rc.example.com/foo?x=1'', ''GET'',
       [(''accept'', ''text/html,application/xhtml+xml''), (''user-agent'', ''Mozilla/5.0''),
        (''x-deployment-override'', ''rc.example.com'')], Manual)]"
proof -
  let ?rq = "navigation ''/foo'' ''?x=1''"
  have r: "Math_random (demo (1/2)) * 100 < 90" by (simp add: demo_def)
  have c: "req_cookies ?rq ''release_candidate'' \<noteq> Some ''false''" by (simp add: navigation_def)
  have v: "valid_value (normalize_value ''rc.example.com'')" by (simp add: demo_value)
  have "fetched (handleDeployment (demo (1/2)) ?rq base_page (req_headers ?rq) [] []
        ''rc.example.com'')
      = [\<lparr>up_url = (req_url ?rq)\<lparr>hostname := ''rc.example.com''\<rparr>, up_method = ''GET'',
          up_headers = headers_set (req_headers ?rq) ''x-deployment-override'' ''rc.example.com'',
          up_redirect = Manual\<rparr>]"
    using proxied_request_shape [OF demo_resolves, of "1/2" ?rq "req_headers ?rq" "[]" base_page "[]"]
      v r c navigation_eligible [of "''/foo''" "''?x=1''"]
      navigation_no_override [of "''/foo''" "''?x=1''"] demo_host [of "1/2"]
    by (simp add: demo_value)
  then show ?thesis by (simp add: navigation_def href_def)
qed

text \<open>
  The claim as written says the fetcher forwards the method and replaces the hostname by
  the resolved one.  Handed a \<^verbatim>\<open>POST\<close>, the fetcher issues a \<^verbatim>\<open>GET\<close>.  With the
  target \<^verbatim>\<open>rc.example.com:8080\<close> the hostname setter rejects the value, and the
  upstream request goes to the inbound host, carrying the marker.
\<close>

theorem proxied_request_shape_counterexample:
  "req_method ((navigation ''/foo'' ''?x=1'')\<lparr>req_method := ''POST''\<rparr>) = ''POST''
   \<and> map up_method (fetched (getNextResponse (demo (1/2))
        ((navigation ''/foo'' ''?x=1'')\<lparr>req_method := ''POST''\<rparr>) ''rc.example.com''
        (req_headers (navigation ''/foo'' ''?x=1'')) [])) = [''GET'']
   \<and> map (\<lambda>q. (href (up_url q), headers_get (up_headers q) ''x-deployment-override''))
       (fetched (handleDeployment (demo (1/2)) (navigation ''/foo'' ''?x=1'') base_page
          (req_headers (navigation ''/foo'' ''?x=1'')) [] [] ''rc.example.com:8080''))
     = [(''https://www.example.com/foo?x=1'', Some ''rc.example.com:8080'')]"
proof -
  let ?rq = "navigation ''/foo'' ''?x=1''"
  have 1: "req_method (?rq\<lparr>req_method := ''POST''\<rparr>) = ''POST''" by simp
  have 2: "map up_method (fetched (getNextResponse (demo (1/2)) (?rq\<lparr>req_method := ''POST''\<rparr>)
        ''rc.example.com'' (req_headers ?rq) [])) = [''GET'']"
    by (simp add: demo_getNextResponse)
  have f: "formatDeploymentUrl (demo (1/2)) ''rc.example.com:8080'' = Inr ''rc.example.com:8080''"
    by (simp add: formatDeploymentUrl_def test_http_def)
  have n: "normalize_value ''rc.example.com:8080'' = ''rc.example.com:8080''"
    by (simp add: normalize_value_def http_whitespace_def)
  have v: "valid_value (normalize_value ''rc.example.com:8080'')"
    unfolding n by (simp add: valid_value_def)
  have p: "host_parse (demo (1/2)) ''rc.example.com:8080'' = None"
    by (simp add: demo_def host_parse_demo_def tab_or_newline_def authority_end_def slash_def)
  have r: "Math_random (demo (1/2)) * 100 < 90" by (simp add: demo_def)
  have c: "req_cookies ?rq ''release_candidate'' \<noteq> Some ''false''" by (simp add: navigation_def)
  have "fetched (handleDeployment (demo (1/2)) ?rq base_page (req_headers ?rq) [] []
        ''rc.example.com:8080'')
      = fetched (getNextResponse (demo (1/2)) ?rq ''rc.example.com:8080'' (req_headers ?rq) [])"
    using r c navigation_eligible [of "''/foo''" "''?x=1''"]
      navigation_no_override [of "''/foo''" "''?x=1''"]
    by (simp add: handleDeployment_fetched)
  also have "\<dots> = [\<lparr>up_url = req_url ?rq, up_method = ''GET'',
          up_headers = headers_set (req_headers ?rq) ''x-deployment-override'' ''rc.example.com:8080'',
          up_redirect = Manual\<rparr>]"
    by (simp add: getNextResponse_ok(1) [OF f v] set_hostname_rejected [OF p] n)
  finally have 3: "map (\<lambda>q. (href (up_url q), headers_get (up_headers q) ''x-deployment-override''))
       (fetched (handleDeployment (demo (1/2)) ?rq base_page (req_headers ?rq) [] []
          ''rc.example.com:8080''))
     = [(''https://www.example.com/foo?x=1'', Some ''rc.example.com:8080'')]"
    by (simp add: headers_get_set_same) (simp add: navigation_def href_def)
  from 1 2 3 show ?thesis by blast
qed

section \<open>The response merger\<close>

text \<open>
  Claim C8.  When the upstream answers, the merged response is the upstream response
  (status, body and headers) with one further \<^verbatim>\<open>Set-Cookie\<close> header for each
  \<^verbatim>\<open>Set-Cookie\<close> value of the caller's response, in order, and a last one for
  \<^verbatim>\<open>release_candidate=true\<close>.  Each value is a header occurrence of its own: a base
  response with \<^verbatim>\<open>a=1\<close> and an upstream response with \<^verbatim>\<open>b=2\<close> give exactly the
  three values \<^verbatim>\<open>b=2\<close>, \<^verbatim>\<open>a=1\<close> and \<^verbatim>\<open>release_candidate=true\<close>.
\<close>

theorem fetchRCDeployment_merges_cookies:
  assumes "returned (getNextResponse P req rcDomain headers uuid) = Inr upstream"
  shows "\<exists>merged. returned (fetchRCDeployment P req headers uuid rcDomain base) = Inr merged
     \<and> res_status merged = res_status upstream
     \<and> res_body merged = res_body upstream
     \<and> res_headers merged = res_headers upstream
          @ map (Pair ''set-cookie'') (getSetCookie (res_headers base))
          @ [(''set-cookie'', ''release_candidate=true'')]
     \<and> getSetCookie (res_headers merged)
          = getSetCookie (res_headers upstream) @ getSetCookie (res_headers base)
            @ [''release_candidate=true'']
     \<and> (getSetCookie (res_headers base) = [''a=1'']
          \<and> getSetCookie (res_headers upstream) = [''b=2'']
          \<longrightarrow> getSetCookie (res_headers merged) = [''b=2'', ''a=1'', ''release_candidate=true'']
              \<and> length (getSetCookie (res_headers merged)) = 3
              \<and> distinct (getSetCookie (res_headers merged)))"
proof -
  let ?m = "upstream\<lparr>res_headers := res_headers upstream
      @ map (Pair ''set-cookie'') (getSetCookie (res_headers base) @ [''release_candidate=true''])\<rparr>"
  have r: "returned (fetchRCDeployment P req headers uuid rcDomain base) = Inr ?m"
    by (simp add: fetchRCDeployment_returned assms)
  have h: "res_headers ?m = res_headers upstream
          @ map (Pair ''set-cookie'') (getSetCookie (res_headers base))
          @ [(''set-cookie'', ''release_candidate=true'')]"
    by simp
  have g: "getSetCookie (res_headers ?m)
          = getSetCookie (res_headers upstream) @ getSetCookie (res_headers base)
            @ [''release_candidate=true'']"
    using getSetCookie_appended
      [of "res_headers upstream" "getSetCookie (res_headers base) @ [''release_candidate=true'']"]
    by simp
  have e: "getSetCookie (res_headers base) = [''a=1'']
          \<and> getSetCookie (res_headers upstream) = [''b=2'']
          \<longrightarrow> getSetCookie (res_headers ?m) = [''b=2'', ''a=1'', ''release_candidate=true'']
              \<and> length (getSetCookie (res_headers ?m)) = 3
              \<and> distinct (getSetCookie (res_headers ?m))"
    unfolding g by simp
  have s: "res_status ?m = res_status upstream" "res_body ?m = res_body upstream" by simp_all
  from r s h g e show ?thesis by blast
qed

text \<open>The base response with \<^verbatim>\<open>a=1\<close> and the upstream page with \<^verbatim>\<open>b=2\<close>.\<close>

theorem fetchRCDeployment_merges_cookies_witness:
  "getSetCookie (res_headers base_page) = [''a=1'']
   \<and> getSetCookie (res_headers rc_page) = [''b=2'']
   \<and> (\<exists>merged. returned (fetchRCDeployment (demo (1/2)) (navigation ''/'' [])
          (req_headers (navigation ''/'' [])) [] ''rc.example.com'' base_page) = Inr merged
        \<and> res_headers merged = [(''content-type'', ''text/html''), (''set-cookie'', ''b=2''),
             (''set-cookie'', ''a=1''), (''set-cookie'', ''release_candidate=true'')]
        \<and> getSetCookie (res_headers merged) = [''b=2'', ''a=1'', ''release_candidate=true''])"
proof -
  have a: "getSetCookie (res_headers base_page) = [''a=1'']"
    by (simp add: base_page_def getSetCookie_def values_of_def)
  have b: "getSetCookie (res_headers rc_page) = [''b=2'']"
    by (simp add: rc_page_def getSetCookie_def values_of_def)
  have f: "fetch (demo (1/2)) q = Some rc_page" for q by (simp add: demo_def)
  have u: "returned (getNextResponse (demo (1/2)) (navigation ''/'' [])
      ''rc.example.com'' (req_headers (navigation ''/'' [])) []) = Inr rc_page"
    by (simp add: demo_getNextResponse)
  from fetchRCDeployment_merges_cookies [OF u, of base_page] a b
  obtain merged where
    "returned (fetchRCDeployment (demo (1/2)) (navigation ''/'' [])
          (req_headers (navigation ''/'' [])) [] ''rc.example.com'' base_page) = Inr merged"
    "res_headers merged = res_headers rc_page @ map (Pair ''set-cookie'') [''a=1'']
          @ [(''set-cookie'', ''release_candidate=true'')]"
    "getSetCookie (res_headers merged) = [''b=2'', ''a=1'', ''release_candidate=true'']"
    by auto
  then have "returned (fetchRCDeployment (demo (1/2)) (navigation ''/'' [])
          (req_headers (navigation ''/'' [])) [] ''rc.example.com'' base_page) = Inr merged
        \<and> res_headers merged = [(''content-type'', ''text/html''), (''set-cookie'', ''b=2''),
             (''set-cookie'', ''a=1''), (''set-cookie'', ''release_candidate=true'')]
        \<and> getSetCookie (res_headers merged) = [''b=2'', ''a=1'', ''release_candidate=true'']"
    by (simp add: rc_page_def)
  with a b show ?thesis by blast
qed

section \<open>The sticky cookie\<close>

text \<open>
  Claim C5, on the code.  A request with the cookie \<^verbatim>\<open>release_candidate=true\<close> is
  proxied, and the sticky cookie appended to the response is the bare string
  \<^verbatim>\<open>release_candidate=true\<close>: it has no \<^verbatim>\<open>Max-Age\<close> and no expiry date.  When
  the split selects production (draw 95 against weight 90), the cookie writer is called
  with \<^verbatim>\<open>release_candidate=false\<close> and a lifetime of 86400 seconds.
\<close>

theorem sticky_true_cookie_without_lifetime:
  "returned (handleDeployment (demo (1/2))
      (with_cookie (navigation ''/'' []) ''release_candidate'' ''true'') base_page
      (req_headers (navigation ''/'' [])) [] [] ''rc.example.com'')
   = Inr \<lparr>res_status = 200,
         res_headers = [(''content-type'', ''text/html''), (''set-cookie'', ''b=2''),
                        (''set-cookie'', ''a=1''), (''set-cookie'', ''release_candidate=true'')],
         res_body = ''<html>rc</html>''\<rparr>
   \<and> returned (handleDeployment (demo (19/20)) (navigation ''/'' []) base_page
      (req_headers (navigation ''/'' [])) [] [] ''rc.example.com'')
   = Inr (cookies_set_demo base_page
        \<lparr>ck_name = ''release_candidate'', ck_value = ''false'', ck_maxAge = Some 86400\<rparr>)"
proof -
  let ?rq = "with_cookie (navigation ''/'' []) ''release_candidate'' ''true''"
  let ?h = "req_headers (navigation ''/'' [])"
  have 1: "\<not> shouldSkipBlueGreenDeployment ?rq ?h"
    by (simp add: shouldSkip_with_cookie navigation_eligible)
  have 2: "req_cookies ?rq ''release_candidate'' \<noteq> Some ''false''"
    and 4: "req_cookies ?rq ''release_candidate'' = Some ''true''"
    by (simp_all add: with_cookie_def)
  have 3: "\<not> truthy (headers_get (req_headers ?rq) ''x-deployment-override'')"
    using navigation_no_override [of "''/''" "[]"] by (simp add: with_cookie_def)
  have a: "handleDeployment (demo (1/2)) ?rq base_page ?h [] [] ''rc.example.com''
      = fetchRCDeployment (demo (1/2)) ?rq ?h [] ''rc.example.com'' base_page"
    by (simp add: handleDeployment_continue [OF 1 2 3] 4)
  have c: "req_cookies (navigation ''/'' []) ''release_candidate'' \<noteq> Some ''false''"
    "req_cookies (navigation ''/'' []) ''release_candidate'' \<noteq> Some ''true''"
    "pathname (req_url (navigation ''/'' [])) \<noteq> ''/release-candidate''"
    by (simp_all add: navigation_def)
  have r: "\<not> Math_random (demo (19/20)) * 100 < 90" "cookies_set (demo (19/20)) = cookies_set_demo"
    by (simp_all add: demo_def)
  have b: "handleDeployment (demo (19/20)) (navigation ''/'' []) base_page ?h [] [] ''rc.example.com''
      = \<lparr>returned = Inr (cookies_set_demo base_page
            \<lparr>ck_name = ''release_candidate'', ck_value = ''false'', ck_maxAge = Some 86400\<rparr>),
         fetched = [], fwd_headers = ?h\<rparr>"
    by (simp add: handleDeployment_continue [OF navigation_eligible c(1) navigation_no_override] c r)
  show ?thesis unfolding a b demo_fetchRCDeployment by simp
qed

text \<open>
  Claim C6, as the code has it.  The paths that pass the response through (ineligible
  request, negative sticky cookie, loop guard) write no cookie.  Every response proxied
  from the release candidate gets the value \<^verbatim>\<open>release_candidate=true\<close> appended,
  whichever test sent the request there: the reserved path, the positive sticky cookie
  or the draw.  When the draw selects production, the cookie writer is called with
  \<^verbatim>\<open>release_candidate=false\<close>.
\<close>

theorem sticky_cookie_writes:
  "(shouldSkipBlueGreenDeployment request headers
      \<or> req_cookies request ''release_candidate'' = Some ''false''
      \<or> truthy (headers_get (req_headers request) ''x-deployment-override'')
    \<longrightarrow> handleDeployment P request response headers uuid config rcDomain
          = \<lparr>returned = Inr response, fetched = [], fwd_headers = headers\<rparr>)
   \<and> (\<not> shouldSkipBlueGreenDeployment request headers
      \<and> req_cookies request ''release_candidate'' \<noteq> Some ''false''
      \<and> \<not> truthy (headers_get (req_headers request) ''x-deployment-override'')
      \<and> (pathname (req_url request) = ''/release-candidate''
           \<or> req_cookies request ''release_candidate'' = Some ''true''
           \<or> Math_random P * 100 < 90)
    \<longrightarrow> (\<forall>upstream. returned (getNextResponse P request rcDomain headers uuid) = Inr upstream
          \<longrightarrow> (\<exists>merged.
                returned (handleDeployment P request response headers uuid config rcDomain)
                  = Inr merged
                \<and> getSetCookie (res_headers merged)
                  = getSetCookie (res_headers upstream) @ getSetCookie (res_headers response)
                    @ [''release_candidate=true''])))
   \<and> (\<not> shouldSkipBlueGreenDeployment request headers
      \<and> req_cookies request ''release_candidate'' \<noteq> Some ''false''
      \<and> \<not> truthy (headers_get (req_headers request) ''x-deployment-override'')
      \<and> pathname (req_url request) \<noteq> ''/release-candidate''
      \<and> req_cookies request ''release_candidate'' \<noteq> Some ''true''
      \<and> \<not> Math_random P * 100 < 90
    \<longrightarrow> handleDeployment P request response headers uuid config rcDomain
          = \<lparr>returned = Inr (cookies_set P response
                 \<lparr>ck_name = ''release_candidate'', ck_value = ''false'',
                  ck_maxAge = Some 86400\<rparr>),
             fetched = [], fwd_headers = headers\<rparr>)"
proof (intro conjI impI allI)
  assume "shouldSkipBlueGreenDeployment request headers
      \<or> req_cookies request ''release_candidate'' = Some ''false''
      \<or> truthy (headers_get (req_headers request) ''x-deployment-override'')"
  then show "handleDeployment P request response headers uuid config rcDomain
          = \<lparr>returned = Inr response, fetched = [], fwd_headers = headers\<rparr>"
    using handleDeployment_skip [of request headers P response uuid config rcDomain]
      handleDeployment_sticky_false [of request P response headers uuid config rcDomain]
      handleDeployment_override [of request P response headers uuid config rcDomain]
    by (auto simp: unchanged_def)
next
  fix upstream
  assume a: "\<not> shouldSkipBlueGreenDeployment request headers
      \<and> req_cookies request ''release_candidate'' \<noteq> Some ''false''
      \<and> \<not> truthy (headers_get (req_headers request) ''x-deployment-override'')
      \<and> (pathname (req_url request) = ''/release-candidate''
           \<or> req_cookies request ''release_candidate'' = Some ''true''
           \<or> Math_random P * 100 < 90)"
    and u: "returned (getNextResponse P request rcDomain headers uuid) = Inr upstream"
  from a have "handleDeployment P request response headers uuid config rcDomain
      = fetchRCDeployment P request headers uuid rcDomain response"
    by (simp add: handleDeployment_continue)
  then have "returned (handleDeployment P request response headers uuid config rcDomain)
      = Inr (upstream\<lparr>res_headers := res_headers upstream
             @ map (Pair ''set-cookie'')
                 (getSetCookie (res_headers response) @ [''release_candidate=true''])\<rparr>)"
    by (simp add: fetchRCDeployment_returned u)
  moreover have "getSetCookie (res_headers (upstream\<lparr>res_headers := res_headers upstream
             @ map (Pair ''set-cookie'')
                 (getSetCookie (res_headers response) @ [''release_candidate=true''])\<rparr>))
      = getSetCookie (res_headers upstream) @ getSetCookie (res_headers response)
                    @ [''release_candidate=true'']"
    using getSetCookie_appended [of "res_headers upstream"
        "getSetCookie (res_headers response) @ [''release_candidate=true'']"]
    by simp
  ultimately show "\<exists>merged.
                returned (handleDeployment P request response headers uuid config rcDomain)
                  = Inr merged
                \<and> getSetCookie (res_headers merged)
                  = getSetCookie (res_headers upstream) @ getSetCookie (res_headers response)
                    @ [''release_candidate=true'']"
    by blast
next
  assume "\<not> shouldSkipBlueGreenDeployment request headers
      \<and> req_cookies request ''release_candidate'' \<noteq> Some ''false''
      \<and> \<not> truthy (headers_get (req_headers request) ''x-deployment-override'')
      \<and> pathname (req_url request) \<noteq> ''/release-candidate''
      \<and> req_cookies request ''release_candidate'' \<noteq> Some ''true''
      \<and> \<not> Math_random P * 100 < 90"
  then show "handleDeployment P request response headers uuid config rcDomain
          = \<lparr>returned = Inr (cookies_set P response
                 \<lparr>ck_name = ''release_candidate'', ck_value = ''false'',
                  ck_maxAge = Some 86400\<rparr>),
             fetched = [], fwd_headers = headers\<rparr>"
    by (simp add: handleDeployment_continue)
qed

text \<open>
  A first visit to the reserved path with a draw that would select production, a first
  visit to the home page with the same draw, and a visit with the negative sticky
  cookie.
\<close>

theorem sticky_cookie_writes_witness:
  "(\<exists>merged. returned (handleDeployment (demo (19/20)) (navigation ''/release-candidate'' [])
        base_page (req_headers (navigation ''/release-candidate'' [])) [] [] ''rc.example.com'')
      = Inr merged
      \<and> getSetCookie (res_headers merged) = [''b=2'', ''a=1'', ''release_candidate=true''])
   \<and> handleDeployment (demo (19/20)) (navigation ''/'' []) base_page
        (req_headers (navigation ''/'' [])) [] [] ''rc.example.com''
      = \<lparr>returned = Inr (cookies_set_demo base_page
             \<lparr>ck_name = ''release_candidate'', ck_value = ''false'', ck_maxAge = Some 86400\<rparr>),
         fetched = [], fwd_headers = req_headers (navigation ''/'' [])\<rparr>
   \<and> handleDeployment (demo (1/2))
        (with_cookie (navigation ''/'' []) ''release_candidate'' ''false'') base_page
        (req_headers (navigation ''/'' [])) [] [] ''rc.example.com''
      = \<lparr>returned = Inr base_page, fetched = [], fwd_headers = req_headers (navigation ''/'' [])\<rparr>"
proof -
  let ?rc = "navigation ''/release-candidate'' []"
  let ?home = "navigation ''/'' []"
  let ?no = "with_cookie (navigation ''/'' []) ''release_candidate'' ''false''"
  have f: "fetch (demo (19/20)) q = Some rc_page" for q by (simp add: demo_def)
  have u: "returned (getNextResponse (demo (19/20)) ?rc ''rc.example.com'' (req_headers ?rc) [])
      = Inr rc_page"
    by (simp add: demo_getNextResponse)
  have c: "req_cookies ?rc ''release_candidate'' \<noteq> Some ''false''"
    "pathname (req_url ?rc) = ''/release-candidate''"
    "req_cookies ?home ''release_candidate'' \<noteq> Some ''false''"
    "req_cookies ?home ''release_candidate'' \<noteq> Some ''true''"
    "pathname (req_url ?home) \<noteq> ''/release-candidate''"
    "req_cookies ?no ''release_candidate'' = Some ''false''"
    by (simp_all add: navigation_def with_cookie_def)
  have r: "\<not> Math_random (demo (19/20)) * 100 < 90" "cookies_set (demo (19/20)) = cookies_set_demo"
    by (simp_all add: demo_def)
  have g: "getSetCookie (res_headers rc_page) = [''b=2'']"
    "getSetCookie (res_headers base_page) = [''a=1'']"
    by (simp_all add: rc_page_def base_page_def getSetCookie_def values_of_def)
  have 1: "\<exists>merged. returned (handleDeployment (demo (19/20)) ?rc base_page (req_headers ?rc)
        [] [] ''rc.example.com'') = Inr merged
      \<and> getSetCookie (res_headers merged) = [''b=2'', ''a=1'', ''release_candidate=true'']"
    using sticky_cookie_writes [of ?rc "req_headers ?rc" "demo (19/20)" base_page "[]" "[]"
        "''rc.example.com''"]
      navigation_eligible [of "''/release-candidate''" "[]"]
      navigation_no_override [of "''/release-candidate''" "[]"] c u g
    by simp
  have 2: "handleDeployment (demo (19/20)) ?home base_page (req_headers ?home) [] []
        ''rc.example.com''
      = \<lparr>returned = Inr (cookies_set_demo base_page
             \<lparr>ck_name = ''release_candidate'', ck_value = ''false'', ck_maxAge = Some 86400\<rparr>),
         fetched = [], fwd_headers = req_headers ?home\<rparr>"
    using sticky_cookie_writes [of ?home "req_headers ?home" "demo (19/20)" base_page "[]" "[]"
        "''rc.example.com''"]
      navigation_eligible [of "''/''" "[]"] navigation_no_override [of "''/''" "[]"] c r
    by simp
  have 3: "handleDeployment (demo (1/2)) ?no base_page (req_headers ?home) [] [] ''rc.example.com''
      = \<lparr>returned = Inr base_page, fetched = [], fwd_headers = req_headers ?home\<rparr>"
    using sticky_cookie_writes [of ?no "req_headers ?home" "demo (1/2)" base_page "[]" "[]"
        "''rc.example.com''"] c
    by simp
  from 1 2 3 show ?thesis by blast
qed

text \<open>
  The claim as written says a request routed by the reserved path alone writes no
  sticky cookie.  A first visit to \<^verbatim>\<open>/release-candidate\<close>, with no cookie and a draw
  that would select production, comes back with \<^verbatim>\<open>release_candidate=true\<close>.
\<close>

theorem sticky_cookie_writes_counterexample:
  "req_cookies (navigation ''/release-candidate'' []) ''release_candidate'' = None
   \<and> pathname (req_url (navigation ''/release-candidate'' [])) = ''/release-candidate''
   \<and> selectBlueGreenDeployment (demo (19/20)) \<lparr>trafficRcPercent = 90\<rparr> = Production
   \<and> map_sum id (\<lambda>r. getSetCookie (res_headers r))
       (returned (handleDeployment (demo (19/20)) (navigation ''/release-candidate'' []) base_page
          (req_headers (navigation ''/release-candidate'' [])) [] [] ''rc.example.com''))
     = Inr [''b=2'', ''a=1'', ''release_candidate=true'']"
proof -
  let ?rq = "navigation ''/release-candidate'' []"
  have c: "req_cookies ?rq ''release_candidate'' = None"
    "pathname (req_url ?rq) = ''/release-candidate''"
    by (simp_all add: navigation_def)
  then have f: "req_cookies ?rq ''release_candidate'' \<noteq> Some ''false''" by simp
  have s: "selectBlueGreenDeployment (demo (19/20)) \<lparr>trafficRcPercent = 90\<rparr> = Production"
    by (simp add: selectBlueGreenDeployment_def demo_def)
  have "handleDeployment (demo (19/20)) ?rq base_page (req_headers ?rq) [] [] ''rc.example.com''
      = fetchRCDeployment (demo (19/20)) ?rq (req_headers ?rq) [] ''rc.example.com'' base_page"
    by (simp add: handleDeployment_continue [OF navigation_eligible f navigation_no_override] c)
  then have "map_sum id (\<lambda>r. getSetCookie (res_headers r))
       (returned (handleDeployment (demo (19/20)) ?rq base_page (req_headers ?rq) [] []
          ''rc.example.com''))
     = Inr [''b=2'', ''a=1'', ''release_candidate=true'']"
    by (simp add: demo_fetchRCDeployment getSetCookie_def values_of_def)
  with c s show ?thesis by blast
qed

section \<open>The split configuration\<close>

text \<open>
  Claim C10.  The configuration the handler reads is the constant with weight 90; it is
  never absent.  The \<^verbatim>\<open>config\<close> argument has no effect on the outcome.  A request
  that reaches the split step (eligible, no sticky cookie, no loop guard, not the
  reserved path) gets what the splitter selects at weight 90: the release candidate
  exactly when the draw is below 90.
\<close>

theorem split_weight_is_constant:
  "productionRcConfig = Some \<lparr>trafficRcPercent = 90\<rparr>
   \<and> handleDeployment P request response headers uuid config rcDomain
       = handleDeployment P request response headers uuid config' rcDomain
   \<and> (\<not> shouldSkipBlueGreenDeployment request headers
        \<and> req_cookies request ''release_candidate'' \<noteq> Some ''false''
        \<and> \<not> truthy (headers_get (req_headers request) ''x-deployment-override'')
        \<and> pathname (req_url request) \<noteq> ''/release-candidate''
        \<and> req_cookies request ''release_candidate'' \<noteq> Some ''true''
      \<longrightarrow> handleDeployment P request response headers uuid config rcDomain
          = (if selectBlueGreenDeployment P \<lparr>trafficRcPercent = 90\<rparr> = Production
             then \<lparr>returned = Inr (cookies_set P response
                      \<lparr>ck_name = ''release_candidate'', ck_value = ''false'',
                       ck_maxAge = Some MAX_AGE\<rparr>),
                   fetched = [], fwd_headers = headers\<rparr>
             else fetchRCDeployment P request headers uuid rcDomain response)
        \<and> (selectBlueGreenDeployment P \<lparr>trafficRcPercent = 90\<rparr> = Rc
             \<longleftrightarrow> Math_random P * 100 < 90))"
  by (simp add: handleDeployment_def productionRcConfig_def selectBlueGreenDeployment_def)

text \<open>
  A first visit to the home page under the middleware's configuration name, with the
  draws 50 and 95.
\<close>

theorem split_weight_is_constant_witness:
  "handleDeployment (demo (1/2)) (navigation ''/'' []) base_page (req_headers (navigation ''/'' []))
       [] ''nectarsleep-production-rc-configuration'' ''rc.example.com''
     = fetchRCDeployment (demo (1/2)) (navigation ''/'' []) (req_headers (navigation ''/'' []))
         [] ''rc.example.com'' base_page
   \<and> handleDeployment (demo (19/20)) (navigation ''/'' []) base_page (req_headers (navigation ''/'' []))
       [] ''nectarsleep-production-rc-configuration'' ''rc.example.com''
     = \<lparr>returned = Inr (cookies_set_demo base_page
           \<lparr>ck_name = ''release_candidate'', ck_value = ''false'', ck_maxAge = Some 86400\<rparr>),
        fetched = [], fwd_headers = req_headers (navigation ''/'' [])\<rparr>"
proof -
  let ?rq = "navigation ''/'' []"
  have c: "req_cookies ?rq ''release_candidate'' \<noteq> Some ''false''"
    "req_cookies ?rq ''release_candidate'' \<noteq> Some ''true''"
    "pathname (req_url ?rq) \<noteq> ''/release-candidate''"
    by (simp_all add: navigation_def)
  have lo: "selectBlueGreenDeployment (demo (1/2)) \<lparr>trafficRcPercent = 90\<rparr> = Rc"
    by (simp add: selectBlueGreenDeployment_def demo_def)
  have hi: "selectBlueGreenDeployment (demo (19/20)) \<lparr>trafficRcPercent = 90\<rparr> = Production"
    by (simp add: selectBlueGreenDeployment_def demo_def)
  have w: "cookies_set (demo (19/20)) = cookies_set_demo" by (simp add: demo_def)
  show ?thesis
    using split_weight_is_constant [of "demo (1/2)" ?rq base_page "req_headers ?rq" "[]"
        "''nectarsleep-production-rc-configuration''" "''rc.example.com''"]
      split_weight_is_constant [of "demo (19/20)" ?rq base_page "req_headers ?rq" "[]"
        "''nectarsleep-production-rc-configuration''" "''rc.example.com''"]
      navigation_eligible [of "''/''" "[]"] navigation_no_override [of "''/''" "[]"] c lo hi w
    by (simp add: MAX_AGE_def)
qed

end
